theory Spec2Isabelle
  imports Complex_Main "HOL-Library.Word" "HOL-Library.Sublist"
begin

section \<open>Data model (src/types.ts)\<close>

text \<open>
  JavaScript strings are sequences of UTF-16 code units.  They are modelled as
  \<open>string\<close>, one \<open>char\<close> per code unit, which covers the strings whose code
  units lie below 256 (ASCII and Latin-1).

  A JavaScript number that holds a score is a \<open>number\<close>: an exact rational, one of
  the two infinities, or \<open>NaN\<close>.  The scores the program computes are quotients of
  two small set sizes, which the rationals represent exactly.  Coordinates and the
  simulation's \<open>alpha\<close> are plain rationals.
\<close>

datatype number = Num rat | PosInfinity | NegInfinity | NaN

text \<open>The comparison \<open>a > b\<close>: false whenever an operand is \<open>NaN\<close>.\<close>

fun number_gt :: "number \<Rightarrow> number \<Rightarrow> bool" where
  "number_gt (Num a) (Num b) = (a > b)"
| "number_gt PosInfinity (Num b) = True"
| "number_gt PosInfinity NegInfinity = True"
| "number_gt (Num a) NegInfinity = True"
| "number_gt a b = False"

text \<open>
  The quotient \<open>i / u\<close> of two sizes: \<open>0 / 0\<close> is \<open>NaN\<close> and any other division by
  zero is infinite.
\<close>

definition size_divide :: "nat \<Rightarrow> nat \<Rightarrow> number" where
  "size_divide i u =
     (if u = 0 then (if i = 0 then NaN else PosInfinity) else Num (of_nat i / of_nat u))"

datatype Chronology = MEGALITHIC | SANGAM | EARLY_HISTORIC | MEDIEVAL | UNKNOWN

fun Chronology_value :: "Chronology \<Rightarrow> string" where
  "Chronology_value MEGALITHIC = ''Megalithic''"
| "Chronology_value SANGAM = ''Sangam Age''"
| "Chronology_value EARLY_HISTORIC = ''Early Historic''"
| "Chronology_value MEDIEVAL = ''Medieval''"
| "Chronology_value UNKNOWN = ''Unknown Period''"

datatype ArtifactCategory = pottery | bead | tool | coin | ornament | other

record Artifact =
  name :: string
  material :: string
  category :: ArtifactCategory
  description :: string

record Location =
  lat :: rat
  lng :: rat
  district :: string

record Site =
  id' :: string
  name :: string
  location :: Location
  chronology :: "Chronology list"
  description :: string
  artifacts :: "Artifact list"
  structures :: "string list"
  embedding :: "rat list option"

text \<open>
  A node of the simulation is a copy of a site to which d3 adds a position
  (\<open>x\<close>, \<open>y\<close>) and, while the node is pinned, a fixed position (\<open>fx\<close>, \<open>fy\<close>;
  \<open>null\<close> is \<open>None\<close>).
\<close>

record GraphNode = Site +
  node_x :: rat
  node_y :: rat
  fx :: "rat option"
  fy :: "rat option"

record SimilarityResult =
  sourceId :: string
  targetId :: string
  score :: number
  explanation :: string
  sharedEntities :: "string list"


section \<open>JavaScript built-ins used by the code\<close>

subsection \<open>\<open>String.prototype.toLowerCase\<close>\<close>

text \<open>
  On code units below 256 the Unicode lower-case mapping moves \<open>A\<close>--\<open>Z\<close> and the
  Latin-1 capitals \<open>0xC0\<close>--\<open>0xDE\<close> (except the multiplication sign \<open>0xD7\<close>) up
  by 32 and leaves every other code unit alone.
\<close>

definition toLowerCase_char :: "char \<Rightarrow> char" where
  "toLowerCase_char c =
     (let n = (of_char c :: nat)
      in if (65 \<le> n \<and> n \<le> 90) \<or> (192 \<le> n \<and> n \<le> 222 \<and> n \<noteq> 215)
         then char_of (n + 32) else c)"

definition toLowerCase :: "string \<Rightarrow> string" where
  "toLowerCase s = map toLowerCase_char s"

subsection \<open>\<open>Set\<close>\<close>

text \<open>
  A JavaScript \<open>Set\<close> keeps its members in insertion order and ignores the insertion
  of a member it already has.  It is modelled as the list of its members in that order;
  \<open>size\<close> is the length of the list.
\<close>

type_synonym 'a js_set = "'a list"

definition Set_has :: "'a js_set \<Rightarrow> 'a \<Rightarrow> bool" where
  "Set_has s x = (x \<in> set s)"

definition Set_add :: "'a js_set \<Rightarrow> 'a \<Rightarrow> 'a js_set" where
  "Set_add s x = (if Set_has s x then s else s @ [x])"

definition new_Set :: "'a list \<Rightarrow> 'a js_set" where
  "new_Set xs = foldl Set_add [] xs"

definition Set_size :: "'a js_set \<Rightarrow> nat" where
  "Set_size s = length s"


section \<open>Similarity engine (App.tsx)\<close>

text \<open>
  \<^verbatim>\<open>
  const calculateSim = (a: Site, b: Site) => {
    const materialsA = new Set(a.artifacts.map(art => art.material.toLowerCase()));
    const materialsB = new Set(b.artifacts.map(art => art.material.toLowerCase()));
    const intersection = new Set([...materialsA].filter(x => materialsB.has(x)));
    const union = new Set([...materialsA, ...materialsB]);
    if (union.size === 0) return 0;
    return intersection.size / union.size;
  };
  \<close>
\<close>

definition materials :: "Site \<Rightarrow> string js_set" where
  "materials a = new_Set (map (\<lambda>art. toLowerCase (material art)) (artifacts a))"

definition calculateSim :: "Site \<Rightarrow> Site \<Rightarrow> number" where
  "calculateSim a b =
     (let materialsA = materials a;
          materialsB = materials b;
          intersection = new_Set (filter (\<lambda>x. Set_has materialsB x) materialsA);
          union = new_Set (materialsA @ materialsB)
      in if Set_size union = 0 then Num 0
         else size_divide (Set_size intersection) (Set_size union))"

text \<open>The two bundled records of \<open>TN_SITES\<close> that the worked example names.\<close>

definition adichanallur :: Site where
  "adichanallur =
     \<lparr> id' = ''adichanallur'',
       name = ''Adichanallur'',
       location = \<lparr> lat = 8.6291, lng = 77.8765, district = ''Thoothukudi'' \<rparr>,
       chronology = [MEGALITHIC],
       description = ''An extensive urn-burial site containing a vast number of skeletal remains and iron artifacts.'',
       artifacts =
         [ \<lparr> Artifact.name = ''Urns'', material = ''Terracotta'', category = pottery,
             description = ''Large burial urns often containing skeletons.'' \<rparr>,
           \<lparr> Artifact.name = ''Swords'', material = ''Iron'', category = tool,
             description = ''Double-edged iron swords found in burials.'' \<rparr>,
           \<lparr> Artifact.name = ''Gold Diadems'', material = ''Gold'', category = ornament,
             description = ''Small gold leaf ornaments for the forehead.'' \<rparr> ],
       structures = [''Urn burial pits'', ''Habitation mounds''],
       embedding = None \<rparr>"

definition keezhadi :: Site where
  "keezhadi =
     \<lparr> id' = ''keezhadi'',
       name = ''Keezhadi'',
       location = \<lparr> lat = 9.8631, lng = 78.1883, district = ''Sivaganga'' \<rparr>,
       chronology = [SANGAM, EARLY_HISTORIC],
       description = ''A large urban settlement showing advanced civic planning and Tamil-Brahmi script.'',
       artifacts =
         [ \<lparr> Artifact.name = ''Tamil-Brahmi Potsherds'', material = ''Terracotta'', category = pottery,
             description = ''Pottery inscribed with personal names.'' \<rparr>,
           \<lparr> Artifact.name = ''Glass Beads'', material = ''Glass'', category = bead,
             description = ''Evidence of local manufacturing of luxury items.'' \<rparr>,
           \<lparr> Artifact.name = ''Game Pieces'', material = ''Terracotta'', category = other,
             description = ''Dice and hopscotches indicating leisure activities.'' \<rparr> ],
       structures = [''Brick walls'', ''Ring wells'', ''Open drainage system''],
       embedding = None \<rparr>"


text \<open>
  The effect that recomputes the similarity data whenever \<open>sites\<close> changes:
  \<^verbatim>\<open>
  const results: SimilarityResult[] = [];
  for (let i = 0; i < sites.length; i++) {
    for (let j = i + 1; j < sites.length; j++) {
      const score = calculateSim(sites[i], sites[j]);
      results.push({ sourceId: sites[i].id, targetId: sites[j].id, score,
                     explanation: '', sharedEntities: [] });
    }
  }
  setSimilarityData(results);
  \<close>
  Both loops run over index ranges, so every read \<open>sites[i]\<close> is in range.
\<close>

definition similarity_result :: "Site \<Rightarrow> Site \<Rightarrow> SimilarityResult" where
  "similarity_result si sj =
     \<lparr> sourceId = id' si, targetId = id' sj, score = calculateSim si sj,
       explanation = [], sharedEntities = [] \<rparr>"

definition inner_loop :: "Site list \<Rightarrow> nat \<Rightarrow> SimilarityResult list \<Rightarrow> SimilarityResult list" where
  "inner_loop sites i results =
     foldl (\<lambda>res j. res @ [similarity_result (sites ! i) (sites ! j)]) results
       [i + 1 ..< length sites]"

definition similarityData :: "Site list \<Rightarrow> SimilarityResult list" where
  "similarityData sites =
     foldl (\<lambda>res i. inner_loop sites i res) [] [0 ..< length sites]"

text \<open>The index pairs the two loops visit, in the order they visit them.\<close>

definition index_pairs :: "nat \<Rightarrow> (nat \<times> nat) list" where
  "index_pairs n = concat (map (\<lambda>i. map (Pair i) [i + 1 ..< n]) [0 ..< n])"


section \<open>Similarity matrix (SimilarityMatrix.tsx)\<close>

text \<open>
  \<^verbatim>\<open>
  const getScore = (id1: string, id2: string) => {
    if (id1 === id2) return 1;
    const res = results.find(r =>
      (r.sourceId === id1 && r.targetId === id2) ||
      (r.sourceId === id2 && r.targetId === id1));
    return res ? res.score : 0;
  };
  \<close>
  \<open>Array.prototype.find\<close> returns the first element that satisfies the predicate, or
  \<open>undefined\<close>; a result object is always truthy.
\<close>

definition getScore :: "SimilarityResult list \<Rightarrow> string \<Rightarrow> string \<Rightarrow> number" where
  "getScore results id1 id2 =
     (if id1 = id2 then Num 1
      else let res = find (\<lambda>r. (sourceId r = id1 \<and> targetId r = id2) \<or>
                                (sourceId r = id2 \<and> targetId r = id1)) results
           in case res of Some r \<Rightarrow> score r | None \<Rightarrow> Num 0)"


text \<open>A results list used in the examples below.\<close>

definition example_results :: "SimilarityResult list" where
  "example_results =
     [ \<lparr> sourceId = ''adichanallur'', targetId = ''keezhadi'', score = Num (1 / 4),
         explanation = [], sharedEntities = [] \<rparr>,
       \<lparr> sourceId = ''keezhadi'', targetId = ''adichanallur'', score = Num (1 / 2),
         explanation = [], sharedEntities = [] \<rparr> ]"


section \<open>Graph builder (NetworkGraph.tsx)\<close>

text \<open>
  \<^verbatim>\<open>
  const nodes = sites.map(d => ({ ...d }));
  const nodeIds = new Set(nodes.map(n => n.id));
  const linkData = links
    .filter(l => l.score > 0.2 && nodeIds.has(l.sourceId) && nodeIds.has(l.targetId))
    .map(l => ({ source: l.sourceId, target: l.targetId, score: l.score }));
  \<close>
  The effect that holds these lines returns before them when \<open>sites\<close> is empty; no
  graph is built then.  \<open>filter\<close>, \<open>Set.has\<close> and \<open>map\<close> do not throw, so
  \<open>linkData\<close> is a total function with no error result.  The literal \<open>0.2\<close> is
  taken as the rational 1/5.
\<close>

record LinkDatum =
  source :: string
  target :: string
  score :: number

definition nodes :: "Site list \<Rightarrow> Site list" where
  "nodes sites = map (\<lambda>d. d) sites"

definition nodeIds :: "Site list \<Rightarrow> string js_set" where
  "nodeIds sites = new_Set (map id' (nodes sites))"

definition linkData :: "Site list \<Rightarrow> SimilarityResult list \<Rightarrow> LinkDatum list" where
  "linkData sites links =
     map (\<lambda>l. \<lparr> source = sourceId l, target = targetId l, score = SimilarityResult.score l \<rparr>)
       (filter (\<lambda>l. number_gt (SimilarityResult.score l) (Num 0.2)
                      \<and> Set_has (nodeIds sites) (sourceId l)
                      \<and> Set_has (nodeIds sites) (targetId l))
          links)"


text \<open>
  Three similarity results used in the examples below: one above the threshold, one
  below it, and one that names a site absent from the list.
\<close>

definition example_links :: "SimilarityResult list" where
  "example_links =
     [ \<lparr> sourceId = ''adichanallur'', targetId = ''keezhadi'', score = Num 0.25,
         explanation = [], sharedEntities = [] \<rparr>,
       \<lparr> sourceId = ''keezhadi'', targetId = ''adichanallur'', score = Num 0.1,
         explanation = [], sharedEntities = [] \<rparr>,
       \<lparr> sourceId = ''adichanallur'', targetId = ''kodumanal'', score = Num 0.9,
         explanation = [], sharedEntities = [] \<rparr> ]"


section \<open>Application state and its effects (App.tsx)\<close>

text \<open>
  The fourth bundled record of \<open>TN_SITES\<close>, used in the examples below.
\<close>

definition arikamedu :: Site where
  "arikamedu =
     \<lparr> id' = ''arikamedu'',
       name = ''Arikamedu'',
       location = \<lparr> lat = 11.8942, lng = 79.8290, district = ''Puducherry'' \<rparr>,
       chronology = [EARLY_HISTORIC],
       description = ''An Indo-Roman trading station on the Coromandel coast.'',
       artifacts =
         [ \<lparr> Artifact.name = ''Amphorae'', material = ''Terracotta'', category = pottery,
             description = ''Mediterranean wine jars.'' \<rparr>,
           \<lparr> Artifact.name = ''Rouletted Ware'', material = ''Terracotta'', category = pottery,
             description = ''Fine pottery with concentric machine-turned patterns.'' \<rparr>,
           \<lparr> Artifact.name = ''Arretine Ware'', material = ''Terracotta'', category = pottery,
             description = ''Red glazed Italian pottery.'' \<rparr> ],
       structures = [''Warehouse remains'', ''Brick tanks'', ''Wharfs''],
       embedding = None \<rparr>"

text \<open>
  The part of \<open>App\<close>'s state that decides what the network graph is built from:
  \<^verbatim>\<open>
  const [view, setView] = useState<'landing' | 'app'>('landing');
  const [activeTab, setActiveTab] = useState<'dashboard' | ... | 'network' | ...>('dashboard');
  const [sites, setSites] = useState<Site[]>(TN_SITES);
  const [similarityData, setSimilarityData] = useState<SimilarityResult[]>([]);
  \<close>
  The fields \<open>sites\<close> and \<open>similarityData\<close> carry the prefix \<open>app_\<close>, the plain names
  being taken.
\<close>

datatype View = View_landing | View_app

datatype Tab = Tab_dashboard | Tab_similarity | Tab_network | Tab_reports | Tab_code

record AppState =
  view :: View
  activeTab :: Tab
  app_sites :: "Site list"
  app_similarityData :: "SimilarityResult list"

text \<open>
  \<^verbatim>\<open>
  const handleAddSite = (newSite: Site) => {
    setSites(prev => [...prev, newSite]);
    setSelectedSite(newSite);
  };
  const handleUpdateSite = (updatedSite: Site) => {
    setSites(prev => prev.map(s => s.id === updatedSite.id ? updatedSite : s));
    setSelectedSite(updatedSite);
  };
  \<close>
  Both replace \<open>sites\<close> and leave \<open>similarityData\<close> as it is.
\<close>

definition handleAddSite :: "Site \<Rightarrow> AppState \<Rightarrow> AppState" where
  "handleAddSite newSite st = st\<lparr> app_sites := app_sites st @ [newSite] \<rparr>"

definition handleUpdateSite :: "Site \<Rightarrow> AppState \<Rightarrow> AppState" where
  "handleUpdateSite updatedSite st =
     st\<lparr> app_sites := map (\<lambda>s. if id' s = id' updatedSite then updatedSite else s)
                          (app_sites st) \<rparr>"

text \<open>
  \<open>App\<close>'s effect on \<open>[sites]\<close> stores the recomputed results with
  \<open>setSimilarityData(results)\<close>.
\<close>

definition App_effect :: "AppState \<Rightarrow> AppState" where
  "App_effect st = st\<lparr> app_similarityData := similarityData (app_sites st) \<rparr>"

text \<open>
  \<open>App\<close> renders \<open><NetworkGraph sites={sites} links={similarityData} />\<close> when the view
  is the application and the active tab is the network tab.  \<open>NetworkGraph\<close>'s effect
  on \<open>[sites, links]\<close> then builds the graph from the two props of that render, unless
  \<open>sites\<close> is empty.  The result records the similarity results the construction
  consumed and the links it built from them.
\<close>

definition graph_construction :: "AppState \<Rightarrow> (SimilarityResult list \<times> LinkDatum list) option" where
  "graph_construction st =
     (if view st = View_app \<and> activeTab st = Tab_network \<and> app_sites st \<noteq> []
      then Some (app_similarityData st, linkData (app_sites st) (app_similarityData st))
      else None)"

text \<open>
  What follows a change of \<open>sites\<close>.  React renders with the new \<open>sites\<close> and the
  \<open>similarityData\<close> the state still holds, and then runs the effects whose dependencies
  changed: \<open>NetworkGraph\<close>'s, with the props of that render, and \<open>App\<close>'s, which sets
  \<open>similarityData\<close>.  That update causes a second render, after which
  \<open>NetworkGraph\<close>'s effect runs again with the new \<open>links\<close>.  The result is the two
  graph constructions, in order, and the state after them.
\<close>

definition sites_changed ::
  "AppState \<Rightarrow> ((SimilarityResult list \<times> LinkDatum list) option
                \<times> (SimilarityResult list \<times> LinkDatum list) option) \<times> AppState" where
  "sites_changed st =
     (let first_construction = graph_construction st;
          st1 = App_effect st;
          second_construction = graph_construction st1
      in ((first_construction, second_construction), st1))"

text \<open>
  The network tab showing the first two bundled sites with their similarity data
  computed, used in the examples below.
\<close>

definition network_state :: AppState where
  "network_state =
     \<lparr> view = View_app, activeTab = Tab_network,
       app_sites = [adichanallur, keezhadi],
       app_similarityData = similarityData [adichanallur, keezhadi] \<rparr>"


section \<open>Drag interaction (NetworkGraph.tsx)\<close>

text \<open>
  The d3 simulation object, as far as the drag handler touches it: its current
  \<open>alpha\<close>, the \<open>alphaTarget\<close> that \<open>alpha\<close> decays towards, and whether its timer is
  running.  \<open>simulation.alphaTarget(v)\<close> stores \<open>v\<close> as the target and
  \<open>simulation.restart()\<close> restarts the timer; neither writes \<open>alpha\<close>, which only
  \<open>simulation.alpha(v)\<close> does.  A new simulation starts with \<open>alpha = 1\<close>.
\<close>

record Simulation =
  alpha :: rat
  alphaTarget :: rat
  running :: bool

definition initial_alpha :: rat where
  "initial_alpha = 1"

definition set_alphaTarget :: "rat \<Rightarrow> Simulation \<Rightarrow> Simulation" where
  "set_alphaTarget v sim = sim\<lparr> alphaTarget := v \<rparr>"

definition restart :: "Simulation \<Rightarrow> Simulation" where
  "restart sim = sim\<lparr> running := True \<rparr>"

text \<open>
  The drag event: \<open>active\<close> counts the other drag gestures in progress, \<open>subject\<close> is
  the dragged node.
  \<^verbatim>\<open>
  function dragstarted(event: any) {
    if (!event.active) simulation.alphaTarget(0.3).restart();
    event.subject.fx = event.subject.x;
    event.subject.fy = event.subject.y;
  }
  \<close>
  The handler mutates the simulation and the subject; the model returns both.
\<close>

record DragEvent =
  active :: nat
  subject :: GraphNode

definition dragstarted :: "DragEvent \<Rightarrow> Simulation \<Rightarrow> Simulation \<times> GraphNode" where
  "dragstarted event simulation =
     (let simulation1 = (if active event = 0 then restart (set_alphaTarget 0.3 simulation)
                         else simulation);
          subject1 = (subject event)\<lparr> fx := Some (node_x (subject event)) \<rparr>;
          subject2 = subject1\<lparr> fy := Some (node_y (subject1)) \<rparr>
      in (simulation1, subject2))"


text \<open>
  A simulation that has cooled down, and a drag event on a node at \<open>(400, 300)\<close>,
  used in the examples below.
\<close>

definition cooled_simulation :: Simulation where
  "cooled_simulation = \<lparr> alpha = 1 / 1000, alphaTarget = 0, running = False \<rparr>"

definition example_node :: GraphNode where
  "example_node = Site.extend keezhadi (GraphNode.fields 400 300 None None)"

definition example_drag :: DragEvent where
  "example_drag = \<lparr> active = 0, subject = example_node \<rparr>"


section \<open>Entity normalizer (Dashboard.tsx)\<close>

subsection \<open>Fuzzy chronology mapping\<close>

text \<open>
  \<^verbatim>\<open>
  const mapChronologyFuzzy = (raw: string): Chronology => {
    const text = raw.toLowerCase().replace(/[^a-z0-9]/g, '');
    const mappingGroups: { enum: Chronology, keywords: string[] }[] = [ ... ];
    for (const group of mappingGroups) {
      if (group.keywords.some(k => text.includes(k))) return group.enum;
    }
    return Chronology.UNKNOWN;
  };
  \<close>
\<close>

definition is_a_z_0_9 :: "char \<Rightarrow> bool" where
  "is_a_z_0_9 c =
     (let n = (of_char c :: nat) in (97 \<le> n \<and> n \<le> 122) \<or> (48 \<le> n \<and> n \<le> 57))"

text \<open>\<open>text.includes(k)\<close>: \<open>k\<close> occurs in \<open>text\<close> at some position.\<close>

fun String_includes :: "string \<Rightarrow> string \<Rightarrow> bool" where
  "String_includes [] k = (k = [])"
| "String_includes (c # cs) k = (prefix k (c # cs) \<or> String_includes cs k)"

record MappingGroup =
  enum' :: Chronology
  keywords' :: "string list"

definition mappingGroups :: "MappingGroup list" where
  "mappingGroups =
     [ \<lparr> enum' = MEGALITHIC,
         keywords' = [''megalithic'', ''megalith'', ''ironage'', ''urnburial'', ''megalithicage'',
                     ''cist'', ''dolmen'', ''menhir''] \<rparr>,
       \<lparr> enum' = SANGAM,
         keywords' = [''sangam'', ''sangamage'', ''sangamperiod'', ''earlysangam'', ''earlytamil'',
                     ''cheran'', ''cholan'', ''pandiyan'', ''tamizh''] \<rparr>,
       \<lparr> enum' = EARLY_HISTORIC,
         keywords' = [''earlyhistoric'', ''earlyhistorical'', ''earlyhistoricperiod'',
                     ''historicperiod'', ''earlydynastic'', ''indoroman'', ''buddhist'', ''jain'',
                     ''maurya'', ''satavahana'', ''palaeography''] \<rparr>,
       \<lparr> enum' = MEDIEVAL,
         keywords' = [''medieval'', ''medival'', ''chola'', ''pandya'', ''pallava'', ''middleages'',
                     ''laterhistoric'', ''vijayanagara'', ''nayaka'', ''islamic'', ''sultanate''] \<rparr> ]"

fun first_group :: "string \<Rightarrow> MappingGroup list \<Rightarrow> Chronology" where
  "first_group text [] = UNKNOWN"
| "first_group text (grp # grps) =
     (if list_ex (\<lambda>k. String_includes text k) (keywords' grp) then enum' grp
      else first_group text grps)"

definition mapChronologyFuzzy :: "string \<Rightarrow> Chronology" where
  "mapChronologyFuzzy raw =
     (let text = filter is_a_z_0_9 (toLowerCase raw) in first_group text mappingGroups)"

text \<open>
  \<^verbatim>\<open>
  const mappedChronology = (extracted.chronology || []).map(mapChronologyFuzzy);
  let uniqueChronology = Array.from(new Set(mappedChronology));
  if (uniqueChronology.length > 1) {
    uniqueChronology = uniqueChronology.filter(c => c !== Chronology.UNKNOWN);
  }
  ...
  chronology: uniqueChronology.length > 0 ? uniqueChronology : [Chronology.UNKNOWN],
  \<close>
  The extracted list may be missing (\<open>None\<close>).
\<close>

definition mappedChronology :: "string list option \<Rightarrow> Chronology list" where
  "mappedChronology extracted_chronology =
     map mapChronologyFuzzy (case extracted_chronology of None \<Rightarrow> [] | Some labels \<Rightarrow> labels)"

definition uniqueChronology :: "string list option \<Rightarrow> Chronology list" where
  "uniqueChronology extracted_chronology =
     (let unique = new_Set (mappedChronology extracted_chronology)
      in if length unique > 1 then filter (\<lambda>c. c \<noteq> UNKNOWN) unique else unique)"

definition newSite_chronology :: "string list option \<Rightarrow> Chronology list" where
  "newSite_chronology extracted_chronology =
     (if length (uniqueChronology extracted_chronology) > 0
      then uniqueChronology extracted_chronology else [UNKNOWN])"

subsection \<open>Identifier derivation\<close>

text \<open>
  \<^verbatim>\<open>
  const stringToHash = (str: string): string => {
    let hash = 0;
    for (let i = 0; i < str.length; i++) {
      const char = str.charCodeAt(i);
      hash = ((hash << 5) - hash) + char;
      hash |= 0; // Convert to 32bit integer
    }
    return Math.abs(hash).toString(36);
  };
  \<close>
  \<open>hash\<close> is a JavaScript number holding an integer.  \<open>hash << 5\<close> converts its
  operand to a 32-bit two's complement integer, shifts and reads the result as signed;
  \<open>hash |= 0\<close> is the same conversion.  The subtraction and addition in between are
  exact, their operands being far below \<open>2^53\<close>.
\<close>

definition ToInt32 :: "int \<Rightarrow> int" where
  "ToInt32 v = sint (word_of_int v :: 32 word)"

definition shift_left :: "int \<Rightarrow> nat \<Rightarrow> int" where
  "shift_left v n = sint (push_bit (n mod 32) (word_of_int v :: 32 word))"

fun hash_loop :: "int \<Rightarrow> string \<Rightarrow> int" where
  "hash_loop hash [] = hash"
| "hash_loop hash (c # cs) =
     hash_loop (ToInt32 ((shift_left hash 5 - hash) + int (of_char c))) cs"

text \<open>
  \<open>Number.prototype.toString(radix)\<close> on a nonnegative integer: its digits in the
  radix, most significant first, with \<open>a\<close>--\<open>z\<close> for the digits from ten on.
  JavaScript accepts the radices 2 to 36 and throws a \<open>RangeError\<close> for any other; the
  code passes 36, and the template literal prints in radix 10.  The model gives the
  empty string for a radix out of range, so every digit it looks up is below 36.
\<close>

definition digit_char :: "nat \<Rightarrow> char" where
  "digit_char d = ''0123456789abcdefghijklmnopqrstuvwxyz'' ! d"

function Number_toString :: "nat \<Rightarrow> nat \<Rightarrow> string" where
  "Number_toString radix n =
     (if radix < 2 \<or> 36 < radix then []
      else if n < radix then [digit_char n]
      else Number_toString radix (n div radix) @ [digit_char (n mod radix)])"
  by pat_completeness auto
termination
  by (relation "measure snd") auto

declare Number_toString.simps [simp del]

text \<open>
  Reading a digit string back: the value of a digit is its position among the digits
  above.  This is used only to state what \<open>Number_toString\<close> prints.
\<close>

definition digit_value :: "char \<Rightarrow> nat" where
  "digit_value c = length (takeWhile (\<lambda>d. d \<noteq> c) ''0123456789abcdefghijklmnopqrstuvwxyz'')"

definition parse_digits :: "nat \<Rightarrow> string \<Rightarrow> nat" where
  "parse_digits radix s = foldl (\<lambda>v c. v * radix + digit_value c) 0 s"

definition stringToHash :: "string \<Rightarrow> string" where
  "stringToHash str = Number_toString 36 (nat \<bar>hash_loop 0 str\<bar>)"

text \<open>
  \<^verbatim>\<open>
  const normalizedName = siteName.trim().toLowerCase().replace(/[^a-z0-9]+/g, '-');
  const normalizedDistrict = siteDistrict.trim().toLowerCase().replace(/[^a-z0-9]+/g, '-');
  const contentHash = stringToHash(`${normalizedName}-${normalizedDistrict}-${Date.now()}`);
  const siteId = `${normalizedName}-${normalizedDistrict}-${contentHash}`;
  \<close>
  \<open>Date.now()\<close> is a parameter: the milliseconds since the epoch, a nonnegative integer
  that the template prints in decimal.
\<close>

definition isWhiteSpace :: "char \<Rightarrow> bool" where
  "isWhiteSpace c = ((of_char c :: nat) \<in> {9, 10, 11, 12, 13, 32, 160})"

definition trim :: "string \<Rightarrow> string" where
  "trim s = rev (dropWhile isWhiteSpace (rev (dropWhile isWhiteSpace s)))"

function replace_runs :: "string \<Rightarrow> string" where
  "replace_runs [] = []"
| "replace_runs (c # cs) =
     (if is_a_z_0_9 c then c # replace_runs cs
      else CHR ''-'' # replace_runs (dropWhile (\<lambda>d. \<not> is_a_z_0_9 d) cs))"
  by pat_completeness auto
termination
  by (relation "measure length") (auto simp: le_imp_less_Suc length_dropWhile_le)

definition normalized :: "string \<Rightarrow> string" where
  "normalized s = replace_runs (toLowerCase (trim s))"

definition compose_id :: "string \<Rightarrow> string \<Rightarrow> nat \<Rightarrow> string" where
  "compose_id normalizedName normalizedDistrict now =
     (let contentHash =
            stringToHash (normalizedName @ ''-'' @ normalizedDistrict @ ''-''
                            @ Number_toString 10 now)
      in normalizedName @ ''-'' @ normalizedDistrict @ ''-'' @ contentHash)"

definition siteId :: "string \<Rightarrow> string \<Rightarrow> nat \<Rightarrow> string" where
  "siteId siteName siteDistrict now =
     compose_id (normalized siteName) (normalized siteDistrict) now"


section \<open>Properties of the JavaScript built-ins\<close>

lemma set_foldl_Set_add: "set (foldl Set_add acc xs) = set acc \<union> set xs"
  by (induction xs arbitrary: acc) (auto simp: Set_add_def Set_has_def)

lemma distinct_foldl_Set_add: "distinct acc \<Longrightarrow> distinct (foldl Set_add acc xs)"
  by (induction xs arbitrary: acc) (auto simp: Set_add_def Set_has_def)

lemma set_new_Set: "set (new_Set xs) = set xs"
  by (simp add: new_Set_def set_foldl_Set_add)

lemma distinct_new_Set: "distinct (new_Set xs)"
  by (simp add: new_Set_def distinct_foldl_Set_add)

lemma Set_size_new_Set: "Set_size (new_Set xs) = card (set xs)"
  using distinct_card [OF distinct_new_Set, of xs]
  by (simp add: Set_size_def set_new_Set)

lemma calculateSim_card:
  "calculateSim a b =
     (if set (materials a) \<union> set (materials b) = {} then Num 0
      else Num (of_nat (card (set (materials a) \<inter> set (materials b)))
                / of_nat (card (set (materials a) \<union> set (materials b)))))"
proof -
  have i: "set (filter (\<lambda>x. Set_has (materials b) x) (materials a))
             = set (materials a) \<inter> set (materials b)"
    by (auto simp: Set_has_def)
  have "card (set (materials a) \<union> set (materials b)) = 0
          \<longleftrightarrow> set (materials a) \<union> set (materials b) = {}"
    by (simp del: Un_empty set_empty)
  then show ?thesis
    unfolding calculateSim_def Let_def Set_size_new_Set i size_divide_def
    by (simp del: Un_empty set_empty)
qed

section \<open>The similarity score\<close>

text \<open>
  C1.  The similarity score is symmetric: \<open>calculateSim a b\<close> and \<open>calculateSim b a\<close>
  are equal for every pair of sites.
\<close>

theorem calculateSim_symmetric: "calculateSim a b = calculateSim b a"
  by (simp add: calculateSim_card Int_commute Un_commute)

text \<open>
  C2.  For every pair of sites the similarity score is a finite number between 0 and 1,
  never \<open>NaN\<close>, and it is exactly 0 when neither site has an artifact (the union of
  materials is empty).
\<close>

theorem calculateSim_bounds:
  "(\<exists>s. calculateSim a b = Num s \<and> 0 \<le> s \<and> s \<le> 1) \<and>
   calculateSim a b \<noteq> NaN \<and>
   (artifacts a = [] \<and> artifacts b = [] \<longrightarrow> calculateSim a b = Num 0)"
proof (intro conjI impI)
  let ?A = "set (materials a)" and ?B = "set (materials b)"
  let ?q = "of_nat (card (?A \<inter> ?B)) / of_nat (card (?A \<union> ?B)) :: rat"
  have "card (?A \<inter> ?B) \<le> card (?A \<union> ?B)"
    by (rule card_mono) auto
  moreover have "0 < card (?A \<union> ?B)" if "?A \<union> ?B \<noteq> {}"
    using that by (simp add: card_gt_0_iff)
  ultimately have q: "0 \<le> ?q \<and> ?q \<le> 1" if "?A \<union> ?B \<noteq> {}"
    using that by (simp add: divide_le_eq_1 del: Un_empty set_empty)
  show e: "\<exists>s. calculateSim a b = Num s \<and> 0 \<le> s \<and> s \<le> 1"
  proof (cases "?A \<union> ?B = {}")
    case True
    then have "calculateSim a b = Num 0"
      unfolding calculateSim_card by (simp del: Un_empty set_empty)
    then show ?thesis by simp
  next
    case False
    then have "calculateSim a b = Num ?q"
      unfolding calculateSim_card by (simp del: Un_empty set_empty)
    with q [OF False] show ?thesis by blast
  qed
  from e show "calculateSim a b \<noteq> NaN"
    by auto
  show "calculateSim a b = Num 0" if "artifacts a = [] \<and> artifacts b = []"
    using that by (simp add: calculateSim_card materials_def set_new_Set)
qed

theorem calculateSim_bounds_witness:
  "artifacts (adichanallur\<lparr>artifacts := []\<rparr>) = [] \<and> artifacts (keezhadi\<lparr>artifacts := []\<rparr>) = [] \<and>
   calculateSim (adichanallur\<lparr>artifacts := []\<rparr>) (keezhadi\<lparr>artifacts := []\<rparr>) = Num 0"
  using calculateSim_bounds [of "adichanallur\<lparr>artifacts := []\<rparr>" "keezhadi\<lparr>artifacts := []\<rparr>"]
  by simp

text \<open>
  C3.  The worked example: Adichanallur has the materials terracotta, iron and gold,
  Keezhadi has terracotta and glass (its two terracotta artifacts counted once), and
  their score is 1/4.
\<close>

theorem calculateSim_example:
  "materials adichanallur = [''terracotta'', ''iron'', ''gold''] \<and>
   materials keezhadi = [''terracotta'', ''glass''] \<and>
   calculateSim adichanallur keezhadi = Num (1 / 4)"
  by code_simp


section \<open>The pairwise recomputation\<close>

lemma foldl_push: "foldl (\<lambda>res j. res @ [f j]) acc js = acc @ map f js"
  by (induction js arbitrary: acc) auto

lemma inner_loop_eq:
  "inner_loop sites i results =
     results @ map (\<lambda>j. similarity_result (sites ! i) (sites ! j)) [i + 1 ..< length sites]"
  unfolding inner_loop_def by (rule foldl_push)

lemma foldl_append_concat: "foldl (\<lambda>res i. res @ g i) acc is = acc @ concat (map g is)"
  by (induction "is" arbitrary: acc) auto

lemma similarityData_eq:
  "similarityData sites =
     map (\<lambda>(i, j). similarity_result (sites ! i) (sites ! j)) (index_pairs (length sites))"
  unfolding similarityData_def inner_loop_eq index_pairs_def
  by (simp add: foldl_append_concat map_concat comp_def)

lemma set_index_pairs: "set (index_pairs n) = {(i, j). i < j \<and> j < n}"
proof -
  have "(a, b) \<in> set (index_pairs n)" if "a < b" "b < n" for a b
  proof -
    have "a \<in> {0..<n}" and "(a, b) \<in> Pair a ` {Suc a..<n}"
      using that by auto
    then show ?thesis
      unfolding index_pairs_def by auto
  qed
  moreover have "a < b \<and> b < n" if "(a, b) \<in> set (index_pairs n)" for a b
    using that by (auto simp: index_pairs_def)
  ultimately show ?thesis by auto
qed

lemma distinct_index_pairs: "distinct (index_pairs n)"
  unfolding index_pairs_def
proof (rule distinct_concat)
  have "i = j" if "i < n" "j < n" "map (Pair i) [Suc i..<n] = map (Pair j) [Suc j..<n]" for i j
  proof -
    from that(3) have "length (map (Pair i) [Suc i..<n]) = length (map (Pair j) [Suc j..<n])"
      by simp
    with that(1,2) show ?thesis by simp
  qed
  then show "distinct (map (\<lambda>i. map (Pair i) [i + 1..<n]) [0..<n])"
    by (auto simp: distinct_map inj_on_def)
qed (auto simp: distinct_map inj_on_def)

lemma length_rows:
  "m \<le> n \<Longrightarrow>
   2 * length (concat (map (\<lambda>i. map (Pair i) [i + 1 ..< n]) [0 ..< m])) + m * (m + 1) = 2 * m * n"
proof (induction m)
  case 0
  then show ?case by simp
next
  case (Suc m)
  then have "2 * length (concat (map (\<lambda>i. map (Pair i) [i + 1 ..< n]) [0 ..< m])) + m * (m + 1) = 2 * m * n"
    and "Suc m \<le> n" by simp_all
  then show ?case by (simp add: algebra_simps)
qed

lemma length_index_pairs: "length (index_pairs n) = n * (n - 1) div 2"
proof -
  have "2 * length (index_pairs n) + n * (n + 1) = 2 * n * n"
    unfolding index_pairs_def using length_rows [of n n] by simp
  then have "2 * length (index_pairs n) = n * (n - 1)"
    by (cases n) (simp_all add: algebra_simps)
  then show ?thesis by simp
qed


lemma pair_match_count:
  assumes d: "distinct (map id' sites)" and p: "p < length sites" and q: "q < length sites"
    and pq: "p \<noteq> q"
  shows "length (filter (\<lambda>r. (sourceId r = id' (sites ! p) \<and> targetId r = id' (sites ! q)) \<or>
                             (sourceId r = id' (sites ! q) \<and> targetId r = id' (sites ! p)))
                   (similarityData sites)) = 1"
proof -
  let ?n = "length sites"
  let ?P = "\<lambda>r. (sourceId r = id' (sites ! p) \<and> targetId r = id' (sites ! q)) \<or>
                 (sourceId r = id' (sites ! q) \<and> targetId r = id' (sites ! p))"
  let ?f = "\<lambda>(i, j). similarity_result (sites ! i) (sites ! j)"
  have inj: "id' (sites ! i) = id' (sites ! j) \<longleftrightarrow> i = j" if "i < ?n" "j < ?n" for i j
    using nth_eq_iff_index_eq [OF d, of i j] that by simp
  have "length (filter ?P (similarityData sites))
          = length (filter (?P \<circ> ?f) (index_pairs ?n))"
    by (simp add: similarityData_eq filter_map)
  also have "\<dots> = card {x \<in> set (index_pairs ?n). (?P \<circ> ?f) x}"
    using distinct_index_pairs [of ?n] by (simp add: distinct_length_filter Collect_conj_eq Int_commute)
  also have "{x \<in> set (index_pairs ?n). (?P \<circ> ?f) x} = {(min p q, max p q)}"
  proof -
    have m: "(?P \<circ> ?f) (i, j) \<longleftrightarrow> (i = p \<and> j = q) \<or> (i = q \<and> j = p)"
      if "i < j" "j < ?n" for i j
      using that p q by (simp add: similarity_result_def inj)
    have "x \<in> set (index_pairs ?n) \<and> (?P \<circ> ?f) x \<longleftrightarrow> x = (min p q, max p q)" for x
    proof (cases x)
      case (Pair i j)
      show ?thesis
      proof (cases "i < j \<and> j < ?n")
        case True
        then have "(?P \<circ> ?f) (i, j) \<longleftrightarrow> (i = p \<and> j = q) \<or> (i = q \<and> j = p)"
          using m by blast
        with True Pair pq show ?thesis
          unfolding set_index_pairs by (auto simp: min_def max_def)
      next
        case False
        with Pair p q pq show ?thesis
          unfolding set_index_pairs by (auto simp: min_def max_def)
      qed
    qed
    then show ?thesis by blast
  qed
  finally show ?thesis by simp
qed

lemma sites_changed_state:
  "snd (sites_changed st) = st\<lparr> app_similarityData := similarityData (app_sites st) \<rparr>"
  by (simp add: sites_changed_def App_effect_def Let_def)

lemma sites_changed_constructions:
  assumes "view st = View_app" and "activeTab st = Tab_network" and "app_sites st \<noteq> []"
  shows "fst (fst (sites_changed st))
           = Some (app_similarityData st, linkData (app_sites st) (app_similarityData st))"
    and "snd (fst (sites_changed st))
           = Some (similarityData (app_sites st),
                   linkData (app_sites st) (similarityData (app_sites st)))"
  using assms by (simp_all add: sites_changed_def graph_construction_def App_effect_def Let_def)

text \<open>
  C4, as stated, fails in its last clause: when a site is added while the network graph
  is shown, the graph is first built from the three sites and the similarity data of
  the two old ones, one result where three are needed.
\<close>

theorem stale_graph_construction_counterexample:
  "app_sites (handleAddSite arikamedu network_state) = [adichanallur, keezhadi, arikamedu] \<and>
   fst (fst (sites_changed (handleAddSite arikamedu network_state)))
     = Some (similarityData [adichanallur, keezhadi],
             linkData [adichanallur, keezhadi, arikamedu] (similarityData [adichanallur, keezhadi])) \<and>
   length (similarityData [adichanallur, keezhadi]) = 1 \<and>
   length (similarityData [adichanallur, keezhadi, arikamedu]) = 3"
proof (intro conjI)
  show "app_sites (handleAddSite arikamedu network_state) = [adichanallur, keezhadi, arikamedu]"
    by (simp add: handleAddSite_def network_state_def)
  show "fst (fst (sites_changed (handleAddSite arikamedu network_state)))
     = Some (similarityData [adichanallur, keezhadi],
             linkData [adichanallur, keezhadi, arikamedu] (similarityData [adichanallur, keezhadi]))"
    by (simp add: sites_changed_def graph_construction_def handleAddSite_def network_state_def
        Let_def)
  show "length (similarityData [adichanallur, keezhadi]) = 1"
    by (simp add: similarityData_eq length_index_pairs)
  show "length (similarityData [adichanallur, keezhadi, arikamedu]) = 3"
    by (simp add: similarityData_eq length_index_pairs)
qed

text \<open>
  C4, amended.  Recomputing the similarity data from \<open>n\<close> sites yields
  \<open>n (n - 1) / 2\<close> results: one for each pair of positions \<open>i < j\<close>, each pair exactly
  once, carrying the two identifiers and their score.  When the identifiers of the
  sites are pairwise different, any two different sites are matched, in either
  orientation, by exactly one result.  The recomputation runs after the render that
  follows a change of the sites: the state then holds the complete results for its
  sites, and a network graph that is shown is built twice, first from the new sites and
  the similarity data held before, then from the new sites and the complete results.
\<close>

theorem similarityData_complete:
  "length (similarityData sites) = length sites * (length sites - 1) div 2 \<and>
   (\<exists>ps. distinct ps \<and> set ps = {(i, j). i < j \<and> j < length sites} \<and>
         similarityData sites = map (\<lambda>(i, j). similarity_result (sites ! i) (sites ! j)) ps) \<and>
   (distinct (map id' sites) \<longrightarrow>
      (\<forall>p < length sites. \<forall>q < length sites. p \<noteq> q \<longrightarrow>
         length (filter (\<lambda>r. (sourceId r = id' (sites ! p) \<and> targetId r = id' (sites ! q)) \<or>
                              (sourceId r = id' (sites ! q) \<and> targetId r = id' (sites ! p)))
                   (similarityData sites)) = 1)) \<and>
   app_sites (snd (sites_changed st)) = app_sites st \<and>
   app_similarityData (snd (sites_changed st)) = similarityData (app_sites st) \<and>
   (view st = View_app \<and> activeTab st = Tab_network \<and> app_sites st \<noteq> [] \<longrightarrow>
      fst (fst (sites_changed st))
        = Some (app_similarityData st, linkData (app_sites st) (app_similarityData st)) \<and>
      snd (fst (sites_changed st))
        = Some (similarityData (app_sites st),
                linkData (app_sites st) (similarityData (app_sites st)))) \<and>
   (\<not> (view st = View_app \<and> activeTab st = Tab_network \<and> app_sites st \<noteq> []) \<longrightarrow>
      fst (sites_changed st) = (None, None))"
proof (intro conjI)
  show "length (similarityData sites) = length sites * (length sites - 1) div 2"
    by (simp add: similarityData_eq length_index_pairs)
  show "\<exists>ps. distinct ps \<and> set ps = {(i, j). i < j \<and> j < length sites} \<and>
         similarityData sites = map (\<lambda>(i, j). similarity_result (sites ! i) (sites ! j)) ps"
    using distinct_index_pairs set_index_pairs similarityData_eq by blast
  show "distinct (map id' sites) \<longrightarrow>
      (\<forall>p < length sites. \<forall>q < length sites. p \<noteq> q \<longrightarrow>
         length (filter (\<lambda>r. (sourceId r = id' (sites ! p) \<and> targetId r = id' (sites ! q)) \<or>
                              (sourceId r = id' (sites ! q) \<and> targetId r = id' (sites ! p)))
                   (similarityData sites)) = 1)"
    using pair_match_count by blast
  show "app_sites (snd (sites_changed st)) = app_sites st"
    by (simp add: sites_changed_state)
  show "app_similarityData (snd (sites_changed st)) = similarityData (app_sites st)"
    by (simp add: sites_changed_state)
  show "view st = View_app \<and> activeTab st = Tab_network \<and> app_sites st \<noteq> [] \<longrightarrow>
      fst (fst (sites_changed st))
        = Some (app_similarityData st, linkData (app_sites st) (app_similarityData st)) \<and>
      snd (fst (sites_changed st))
        = Some (similarityData (app_sites st),
                linkData (app_sites st) (similarityData (app_sites st)))"
    using sites_changed_constructions [of st] by blast
  show "\<not> (view st = View_app \<and> activeTab st = Tab_network \<and> app_sites st \<noteq> []) \<longrightarrow>
      fst (sites_changed st) = (None, None)"
    by (auto simp: sites_changed_def graph_construction_def App_effect_def Let_def)
qed

theorem similarityData_complete_witness:
  "distinct (map id' [adichanallur, keezhadi]) \<and> (0::nat) < 1 \<and> 1 < length [adichanallur, keezhadi] \<and>
   length (similarityData [adichanallur, keezhadi]) = 1 \<and>
   length (filter (\<lambda>r. (sourceId r = ''adichanallur'' \<and> targetId r = ''keezhadi'') \<or>
                        (sourceId r = ''keezhadi'' \<and> targetId r = ''adichanallur''))
             (similarityData [adichanallur, keezhadi])) = 1 \<and>
   view (handleAddSite arikamedu network_state) = View_app \<and>
   activeTab (handleAddSite arikamedu network_state) = Tab_network \<and>
   app_sites (handleAddSite arikamedu network_state) = [adichanallur, keezhadi, arikamedu] \<and>
   fst (fst (sites_changed (handleAddSite arikamedu network_state)))
     = Some (similarityData [adichanallur, keezhadi],
             linkData [adichanallur, keezhadi, arikamedu] (similarityData [adichanallur, keezhadi])) \<and>
   snd (fst (sites_changed (handleAddSite arikamedu network_state)))
     = Some (similarityData [adichanallur, keezhadi, arikamedu],
             linkData [adichanallur, keezhadi, arikamedu]
               (similarityData [adichanallur, keezhadi, arikamedu])) \<and>
   app_similarityData (snd (sites_changed (handleAddSite arikamedu network_state)))
     = similarityData [adichanallur, keezhadi, arikamedu] \<and>
   fst (sites_changed (network_state\<lparr> activeTab := Tab_dashboard \<rparr>)) = (None, None)"
proof -
  note inst = similarityData_complete [where sites = "[adichanallur, keezhadi]"
      and st = "handleAddSite arikamedu network_state"]
  have d: "distinct (map id' [adichanallur, keezhadi])"
    by (simp add: adichanallur_def keezhadi_def)
  have c: "\<forall>p < length [adichanallur, keezhadi]. \<forall>q < length [adichanallur, keezhadi]. p \<noteq> q \<longrightarrow>
         length (filter (\<lambda>r. (sourceId r = id' ([adichanallur, keezhadi] ! p) \<and>
                              targetId r = id' ([adichanallur, keezhadi] ! q)) \<or>
                             (sourceId r = id' ([adichanallur, keezhadi] ! q) \<and>
                              targetId r = id' ([adichanallur, keezhadi] ! p)))
                   (similarityData [adichanallur, keezhadi])) = 1"
    using inst [THEN conjunct2, THEN conjunct2, THEN conjunct1] d by (rule mp)
  have l: "length (similarityData [adichanallur, keezhadi]) = 1"
    using inst [THEN conjunct1] by simp
  have "length (filter (\<lambda>r. (sourceId r = id' ([adichanallur, keezhadi] ! 0) \<and>
                            targetId r = id' ([adichanallur, keezhadi] ! 1)) \<or>
                           (sourceId r = id' ([adichanallur, keezhadi] ! 1) \<and>
                            targetId r = id' ([adichanallur, keezhadi] ! 0)))
                  (similarityData [adichanallur, keezhadi])) = 1"
    using c [rule_format, of 0 1] by simp
  then have f: "length (filter (\<lambda>r. (sourceId r = ''adichanallur'' \<and> targetId r = ''keezhadi'') \<or>
                        (sourceId r = ''keezhadi'' \<and> targetId r = ''adichanallur''))
             (similarityData [adichanallur, keezhadi])) = 1"
    by (simp add: adichanallur_def keezhadi_def)
  have v: "view (handleAddSite arikamedu network_state) = View_app"
    and t: "activeTab (handleAddSite arikamedu network_state) = Tab_network"
    and s: "app_sites (handleAddSite arikamedu network_state) = [adichanallur, keezhadi, arikamedu]"
    and o: "app_similarityData (handleAddSite arikamedu network_state)
              = similarityData [adichanallur, keezhadi]"
    by (simp_all add: handleAddSite_def network_state_def)
  have m: "view (handleAddSite arikamedu network_state) = View_app \<and>
           activeTab (handleAddSite arikamedu network_state) = Tab_network \<and>
           app_sites (handleAddSite arikamedu network_state) \<noteq> []"
    using v t s by simp
  have g: "fst (fst (sites_changed (handleAddSite arikamedu network_state)))
        = Some (app_similarityData (handleAddSite arikamedu network_state),
                linkData (app_sites (handleAddSite arikamedu network_state))
                  (app_similarityData (handleAddSite arikamedu network_state))) \<and>
      snd (fst (sites_changed (handleAddSite arikamedu network_state)))
        = Some (similarityData (app_sites (handleAddSite arikamedu network_state)),
                linkData (app_sites (handleAddSite arikamedu network_state))
                  (similarityData (app_sites (handleAddSite arikamedu network_state))))"
    using inst [THEN conjunct2, THEN conjunct2, THEN conjunct2, THEN conjunct2, THEN conjunct2,
        THEN conjunct1] m by (rule mp)
  have a: "app_similarityData (snd (sites_changed (handleAddSite arikamedu network_state)))
     = similarityData (app_sites (handleAddSite arikamedu network_state))"
    using inst [THEN conjunct2, THEN conjunct2, THEN conjunct2, THEN conjunct2, THEN conjunct1] .
  have n: "\<not> (view (network_state\<lparr> activeTab := Tab_dashboard \<rparr>) = View_app \<and>
              activeTab (network_state\<lparr> activeTab := Tab_dashboard \<rparr>) = Tab_network \<and>
              app_sites (network_state\<lparr> activeTab := Tab_dashboard \<rparr>) \<noteq> [])"
    by simp
  have h: "fst (sites_changed (network_state\<lparr> activeTab := Tab_dashboard \<rparr>)) = (None, None)"
    using similarityData_complete [where sites = "[adichanallur, keezhadi]"
        and st = "network_state\<lparr> activeTab := Tab_dashboard \<rparr>",
        THEN conjunct2, THEN conjunct2, THEN conjunct2, THEN conjunct2, THEN conjunct2,
        THEN conjunct2] n by (rule mp)
  show ?thesis
  proof (intro conjI)
    show "(0::nat) < 1" and "1 < length [adichanallur, keezhadi]"
      by simp_all
    show "fst (fst (sites_changed (handleAddSite arikamedu network_state)))
     = Some (similarityData [adichanallur, keezhadi],
             linkData [adichanallur, keezhadi, arikamedu] (similarityData [adichanallur, keezhadi]))"
      using g unfolding s o by (rule conjunct1)
    show "snd (fst (sites_changed (handleAddSite arikamedu network_state)))
     = Some (similarityData [adichanallur, keezhadi, arikamedu],
             linkData [adichanallur, keezhadi, arikamedu]
               (similarityData [adichanallur, keezhadi, arikamedu]))"
      using g unfolding s o by (rule conjunct2)
    show "app_similarityData (snd (sites_changed (handleAddSite arikamedu network_state)))
     = similarityData [adichanallur, keezhadi, arikamedu]"
      using a unfolding s .
  qed (rule d l f v t s h)+
qed

section \<open>The similarity matrix lookup\<close>

text \<open>
  C10.  \<open>getScore\<close> returns 1 on the diagonal; off the diagonal it returns the score of
  the first result that matches the two identifiers in either orientation, and 0 when
  no result matches.
\<close>

theorem getScore_lookup:
  "(id1 = id2 \<longrightarrow> getScore results id1 id2 = Num 1) \<and>
   (id1 \<noteq> id2 \<longrightarrow>
      (\<forall>i < length results.
          ((sourceId (results ! i) = id1 \<and> targetId (results ! i) = id2) \<or>
           (sourceId (results ! i) = id2 \<and> targetId (results ! i) = id1)) \<and>
          (\<forall>k < i. \<not> ((sourceId (results ! k) = id1 \<and> targetId (results ! k) = id2) \<or>
                         (sourceId (results ! k) = id2 \<and> targetId (results ! k) = id1)))
          \<longrightarrow> getScore results id1 id2 = SimilarityResult.score (results ! i)) \<and>
      ((\<forall>r \<in> set results. \<not> ((sourceId r = id1 \<and> targetId r = id2) \<or>
                                 (sourceId r = id2 \<and> targetId r = id1)))
          \<longrightarrow> getScore results id1 id2 = Num 0))"
proof (intro conjI impI allI)
  let ?P = "\<lambda>r. (sourceId r = id1 \<and> targetId r = id2) \<or> (sourceId r = id2 \<and> targetId r = id1)"
  show "getScore results id1 id2 = Num 1" if "id1 = id2"
    using that by (simp add: getScore_def)
  show "getScore results id1 id2 = SimilarityResult.score (results ! i)"
    if ne: "id1 \<noteq> id2" and i: "i < length results"
      and m: "?P (results ! i) \<and> (\<forall>k < i. \<not> ?P (results ! k))" for i
  proof -
    have "find ?P results = Some (results ! i)"
      unfolding find_Some_iff using i m by blast
    then show ?thesis
      using ne by (simp add: getScore_def)
  qed
  show "getScore results id1 id2 = Num 0"
    if ne: "id1 \<noteq> id2" and none: "\<forall>r \<in> set results. \<not> ?P r"
  proof -
    have "find ?P results = None"
      unfolding find_None_iff using none by blast
    then show ?thesis
      using ne by (simp add: getScore_def)
  qed
qed

theorem getScore_lookup_witness:
  "getScore example_results ''keezhadi'' ''keezhadi'' = Num 1 \<and>
   getScore example_results ''keezhadi'' ''adichanallur'' = Num (1 / 4) \<and>
   getScore example_results ''keezhadi'' ''kodumanal'' = Num 0"
proof (intro conjI)
  show "getScore example_results ''keezhadi'' ''keezhadi'' = Num 1"
    using getScore_lookup [of "''keezhadi''" "''keezhadi''" example_results] by simp
  have a: "\<forall>i < length example_results.
          ((sourceId (example_results ! i) = ''keezhadi'' \<and>
            targetId (example_results ! i) = ''adichanallur'') \<or>
           (sourceId (example_results ! i) = ''adichanallur'' \<and>
            targetId (example_results ! i) = ''keezhadi'')) \<and>
          (\<forall>k < i. \<not> ((sourceId (example_results ! k) = ''keezhadi'' \<and>
                          targetId (example_results ! k) = ''adichanallur'') \<or>
                         (sourceId (example_results ! k) = ''adichanallur'' \<and>
                          targetId (example_results ! k) = ''keezhadi'')))
          \<longrightarrow> getScore example_results ''keezhadi'' ''adichanallur''
                = SimilarityResult.score (example_results ! i)"
    using getScore_lookup [of "''keezhadi''" "''adichanallur''" example_results] by simp
  have "getScore example_results ''keezhadi'' ''adichanallur''
          = SimilarityResult.score (example_results ! 0)"
    using a [rule_format, of 0] by (simp add: example_results_def)
  then show "getScore example_results ''keezhadi'' ''adichanallur'' = Num (1 / 4)"
    by (simp add: example_results_def)
  have "\<forall>r \<in> set example_results.
          \<not> ((sourceId r = ''keezhadi'' \<and> targetId r = ''kodumanal'') \<or>
             (sourceId r = ''kodumanal'' \<and> targetId r = ''keezhadi''))"
    by (simp add: example_results_def)
  moreover have "''keezhadi'' \<noteq> ''kodumanal''"
    by simp
  ultimately show "getScore example_results ''keezhadi'' ''kodumanal'' = Num 0"
    using getScore_lookup [of "''keezhadi''" "''kodumanal''" example_results] by blast
qed


section \<open>The graph builder\<close>

lemma Set_has_nodeIds: "Set_has (nodeIds sites) i \<longleftrightarrow> i \<in> id' ` set sites"
  by (simp add: Set_has_def nodeIds_def nodes_def set_new_Set)

text \<open>
  C5.  The links handed to the simulation are the similarity results, in order, whose
  score is strictly greater than 0.2 and whose two identifiers both belong to a site of
  the current list; every other result is left out, and building the list never fails.
  So a result of score 0.25 between two present sites is included, one of score 0.1 is
  excluded, and one that names an absent site is excluded whatever its score.
\<close>

theorem linkData_included_iff:
  "linkData sites links =
     map (\<lambda>l. \<lparr> source = sourceId l, target = targetId l, score = SimilarityResult.score l \<rparr>)
       (filter (\<lambda>l. number_gt (SimilarityResult.score l) (Num 0.2) \<and> sourceId l \<in> id' ` set sites
                      \<and> targetId l \<in> id' ` set sites) links) \<and>
   (\<forall>l \<in> set links.
      \<lparr> source = sourceId l, target = targetId l, score = SimilarityResult.score l \<rparr>
          \<in> set (linkData sites links)
      \<longleftrightarrow> number_gt (SimilarityResult.score l) (Num 0.2) \<and> sourceId l \<in> id' ` set sites
            \<and> targetId l \<in> id' ` set sites) \<and>
   (\<forall>l \<in> set links. SimilarityResult.score l = Num 0.25 \<and> sourceId l \<in> id' ` set sites
                        \<and> targetId l \<in> id' ` set sites \<longrightarrow>
      \<lparr> source = sourceId l, target = targetId l, score = SimilarityResult.score l \<rparr>
          \<in> set (linkData sites links)) \<and>
   (\<forall>l \<in> set links. SimilarityResult.score l = Num 0.1 \<longrightarrow>
      \<lparr> source = sourceId l, target = targetId l, score = SimilarityResult.score l \<rparr>
          \<notin> set (linkData sites links)) \<and>
   (\<forall>l \<in> set links. sourceId l \<notin> id' ` set sites \<or> targetId l \<notin> id' ` set sites \<longrightarrow>
      \<lparr> source = sourceId l, target = targetId l, score = SimilarityResult.score l \<rparr>
          \<notin> set (linkData sites links))"
proof -
  let ?keep = "\<lambda>l. number_gt (SimilarityResult.score l) (Num 0.2) \<and> sourceId l \<in> id' ` set sites
                      \<and> targetId l \<in> id' ` set sites"
  let ?mk = "\<lambda>l. \<lparr> source = sourceId l, target = targetId l, score = SimilarityResult.score l \<rparr>"
  have eq: "linkData sites links = map ?mk (filter ?keep links)"
    by (simp add: linkData_def Set_has_nodeIds)
  have iff: "?mk l \<in> set (linkData sites links) \<longleftrightarrow> ?keep l" if "l \<in> set links" for l
  proof
    assume "?mk l \<in> set (linkData sites links)"
    then obtain l' where "l' \<in> set links" "?keep l'" "?mk l' = ?mk l"
      unfolding eq by auto
    then show "?keep l" by simp
  next
    assume "?keep l"
    with that show "?mk l \<in> set (linkData sites links)"
      unfolding eq by auto
  qed
  show ?thesis
  proof (intro conjI ballI impI)
    show "linkData sites links = map ?mk (filter ?keep links)"
      by (rule eq)
    show "?mk l \<in> set (linkData sites links) \<longleftrightarrow> ?keep l" if "l \<in> set links" for l
      using that by (rule iff)
    show "?mk l \<in> set (linkData sites links)"
      if "l \<in> set links"
        and "SimilarityResult.score l = Num 0.25 \<and> sourceId l \<in> id' ` set sites
               \<and> targetId l \<in> id' ` set sites" for l
    proof -
      from that(2) have "?keep l" by simp
      then show ?thesis using iff [OF that(1)] by blast
    qed
    show "?mk l \<notin> set (linkData sites links)"
      if "l \<in> set links" and "SimilarityResult.score l = Num 0.1" for l
    proof -
      from that(2) have "\<not> ?keep l" by simp
      then show ?thesis using iff [OF that(1)] by blast
    qed
    show "?mk l \<notin> set (linkData sites links)"
      if "l \<in> set links"
        and "sourceId l \<notin> id' ` set sites \<or> targetId l \<notin> id' ` set sites" for l
    proof -
      from that(2) have "\<not> ?keep l" by blast
      then show ?thesis using iff [OF that(1)] by blast
    qed
  qed
qed

theorem linkData_included_iff_witness:
  "example_links ! 0 \<in> set example_links \<and> example_links ! 1 \<in> set example_links \<and>
   example_links ! 2 \<in> set example_links \<and>
   \<lparr> source = ''adichanallur'', target = ''keezhadi'', score = Num 0.25 \<rparr>
      \<in> set (linkData [adichanallur, keezhadi] example_links) \<and>
   \<lparr> source = ''keezhadi'', target = ''adichanallur'', score = Num 0.1 \<rparr>
      \<notin> set (linkData [adichanallur, keezhadi] example_links) \<and>
   \<lparr> source = ''adichanallur'', target = ''kodumanal'', score = Num 0.9 \<rparr>
      \<notin> set (linkData [adichanallur, keezhadi] example_links)"
proof -
  have m: "example_links ! 0 \<in> set example_links" "example_links ! 1 \<in> set example_links"
    "example_links ! 2 \<in> set example_links"
    by (simp_all add: example_links_def)
  have iff: "\<forall>l \<in> set example_links.
      \<lparr> source = sourceId l, target = targetId l, score = SimilarityResult.score l \<rparr>
          \<in> set (linkData [adichanallur, keezhadi] example_links)
      \<longleftrightarrow> number_gt (SimilarityResult.score l) (Num 0.2) \<and> sourceId l \<in> id' ` set [adichanallur, keezhadi]
            \<and> targetId l \<in> id' ` set [adichanallur, keezhadi]"
    using linkData_included_iff [of "[adichanallur, keezhadi]" example_links] by blast
  show ?thesis
    using m iff [rule_format, OF m(1)] iff [rule_format, OF m(2)] iff [rule_format, OF m(3)]
    by (simp add: example_links_def adichanallur_def keezhadi_def)
qed


section \<open>The fuzzy chronology mapping\<close>

lemma String_includes_sublist: "String_includes t k \<longleftrightarrow> sublist k t"
  by (induction t) (auto simp: sublist_Cons_right)

lemma first_group_find:
  "first_group t gs =
     (case find (\<lambda>g. \<exists>k \<in> set (keywords' g). sublist k t) gs of
        Some g \<Rightarrow> enum' g | None \<Rightarrow> UNKNOWN)"
  by (induction gs) (simp_all add: list_ex_iff String_includes_sublist)

lemma enum'_mappingGroups: "g \<in> set mappingGroups \<Longrightarrow> enum' g \<noteq> UNKNOWN"
  by (auto simp: mappingGroups_def)

text \<open>
  C6.  \<open>mapChronologyFuzzy\<close> lower-cases its input and keeps only the characters
  \<open>a\<close>--\<open>z\<close> and \<open>0\<close>--\<open>9\<close>; it returns the category of the first group of
  \<open>mappingGroups\<close> one of whose keywords occurs in that text as a substring, and
  \<open>UNKNOWN\<close> exactly when no keyword of any group occurs.  ``Megalithic Age burial''
  maps to \<open>MEGALITHIC\<close> and ``completely unrelated text'' to \<open>UNKNOWN\<close>.
\<close>

theorem mapChronologyFuzzy_first_match:
  "(\<forall>c \<in> set (filter is_a_z_0_9 (toLowerCase raw)).
      (97 \<le> (of_char c :: nat) \<and> (of_char c :: nat) \<le> 122) \<or>
      (48 \<le> (of_char c :: nat) \<and> (of_char c :: nat) \<le> 57)) \<and>
   mapChronologyFuzzy raw =
     (case find (\<lambda>g. \<exists>k \<in> set (keywords' g). sublist k (filter is_a_z_0_9 (toLowerCase raw)))
             mappingGroups of
        Some g \<Rightarrow> enum' g | None \<Rightarrow> UNKNOWN) \<and>
   (mapChronologyFuzzy raw = UNKNOWN \<longleftrightarrow>
      (\<forall>g \<in> set mappingGroups. \<forall>k \<in> set (keywords' g).
          \<not> sublist k (filter is_a_z_0_9 (toLowerCase raw)))) \<and>
   mapChronologyFuzzy ''Megalithic Age burial'' = MEGALITHIC \<and>
   mapChronologyFuzzy ''completely unrelated text'' = UNKNOWN"
proof (intro conjI)
  let ?text = "filter is_a_z_0_9 (toLowerCase raw)"
  let ?m = "\<lambda>g. \<exists>k \<in> set (keywords' g). sublist k ?text"
  show "\<forall>c \<in> set ?text. (97 \<le> (of_char c :: nat) \<and> (of_char c :: nat) \<le> 122) \<or>
      (48 \<le> (of_char c :: nat) \<and> (of_char c :: nat) \<le> 57)"
    by (simp add: is_a_z_0_9_def Let_def)
  show f: "mapChronologyFuzzy raw = (case find ?m mappingGroups of Some g \<Rightarrow> enum' g | None \<Rightarrow> UNKNOWN)"
    by (simp add: mapChronologyFuzzy_def first_group_find)
  show "mapChronologyFuzzy raw = UNKNOWN \<longleftrightarrow>
      (\<forall>g \<in> set mappingGroups. \<forall>k \<in> set (keywords' g). \<not> sublist k ?text)"
  proof (cases "find ?m mappingGroups")
    case None
    then have "\<forall>g \<in> set mappingGroups. \<not> ?m g"
      by (simp add: find_None_iff)
    then show ?thesis
      unfolding f None by auto
  next
    case (Some g)
    then have "g \<in> set mappingGroups" and "?m g"
      by (auto simp: find_Some_iff)
    then show ?thesis
      unfolding f Some using enum'_mappingGroups [of g] by auto
  qed
  show "mapChronologyFuzzy ''Megalithic Age burial'' = MEGALITHIC"
    by code_simp
  show "mapChronologyFuzzy ''completely unrelated text'' = UNKNOWN"
    by code_simp
qed

theorem mapChronologyFuzzy_first_match_witness:
  "filter is_a_z_0_9 (toLowerCase ''Early Chola / Sangam'') = ''earlycholasangam'' \<and>
   mapChronologyFuzzy ''Early Chola / Sangam'' = enum' (mappingGroups ! 1) \<and>
   mapChronologyFuzzy ''Early Chola / Sangam'' = SANGAM"
proof -
  have t: "filter is_a_z_0_9 (toLowerCase ''Early Chola / Sangam'') = ''earlycholasangam''"
    by code_simp
  have f: "find (\<lambda>g. \<exists>k \<in> set (keywords' g). sublist k ''earlycholasangam'') mappingGroups
     = Some (mappingGroups ! 1)"
    by code_simp
  have e: "enum' (mappingGroups ! Suc 0) = SANGAM"
    by (simp add: mappingGroups_def)
  show ?thesis
    using mapChronologyFuzzy_first_match [of "''Early Chola / Sangam''"]
    unfolding t f by (simp add: e)
qed


section \<open>The chronology of an ingested site\<close>

lemma filter_neq_nonempty:
  assumes "distinct u" and "1 < length u"
  shows "filter (\<lambda>c. c \<noteq> a) u \<noteq> []"
proof -
  obtain x y rest where u: "u = x # y # rest"
    using assms(2) by (cases u; cases "tl u") auto
  with assms(1) have "x \<noteq> y" by simp
  then have "x \<noteq> a \<or> y \<noteq> a" by auto
  then show ?thesis
    unfolding u by auto
qed

lemma distinct_set_singleton:
  assumes "distinct xs" and "set xs = {a}"
  shows "xs = [a]"
proof (cases xs)
  case Nil
  with assms(2) show ?thesis by simp
next
  case (Cons x ys)
  with assms have "x = a" and "set ys \<subseteq> {a}" and "a \<notin> set ys"
    by auto
  then have "ys = []" by (cases ys) auto
  with Cons \<open>x = a\<close> show ?thesis by simp
qed

text \<open>
  C7.  The chronology of an ingested site is never empty and has no repeated entry.
  It contains \<open>UNKNOWN\<close> only as its sole element: when the labels map to more than one
  distinct category, \<open>UNKNOWN\<close> is removed and the other categories are kept.  When no
  label was extracted, the chronology is the single entry \<open>UNKNOWN\<close>.
\<close>

theorem newSite_chronology_invariant:
  "newSite_chronology ec \<noteq> [] \<and>
   distinct (newSite_chronology ec) \<and>
   (UNKNOWN \<in> set (newSite_chronology ec) \<longrightarrow> newSite_chronology ec = [UNKNOWN]) \<and>
   (1 < card (set (mappedChronology ec)) \<longrightarrow>
      set (newSite_chronology ec) = set (mappedChronology ec) - {UNKNOWN}) \<and>
   (mappedChronology ec = [] \<longrightarrow> newSite_chronology ec = [UNKNOWN])"
proof -
  let ?u = "new_Set (mappedChronology ec)"
  have d: "distinct ?u"
    by (rule distinct_new_Set)
  consider (many) "1 < length ?u" | (one) "length ?u = 1" | (none) "length ?u = 0"
    by linarith
  then show ?thesis
  proof cases
    case many
    then have ne: "filter (\<lambda>c. c \<noteq> UNKNOWN) ?u \<noteq> []"
      using d by (rule filter_neq_nonempty [rotated])
    have r: "newSite_chronology ec = filter (\<lambda>c. c \<noteq> UNKNOWN) ?u"
      using many ne by (simp add: newSite_chronology_def uniqueChronology_def)
    have "mappedChronology ec \<noteq> []"
      using many by (auto simp: new_Set_def)
    then show ?thesis
      unfolding r using ne d by (auto simp: set_new_Set)
  next
    case one
    then obtain c where u: "?u = [c]"
      by (cases ?u) auto
    have r: "newSite_chronology ec = [c]"
      by (simp add: newSite_chronology_def uniqueChronology_def u)
    have "set (mappedChronology ec) = {c}"
      using set_new_Set [of "mappedChronology ec"] u by simp
    then show ?thesis
      unfolding r by auto
  next
    case none
    then have u: "?u = []" by simp
    have r: "newSite_chronology ec = [UNKNOWN]"
      by (simp add: newSite_chronology_def uniqueChronology_def u)
    have "set (mappedChronology ec) = {}"
      using set_new_Set [of "mappedChronology ec"] u by simp
    then show ?thesis
      unfolding r by simp
  qed
qed

theorem newSite_chronology_invariant_witness:
  "mappedChronology (Some [''Megalithic Age burial'', ''completely unrelated text''])
     = [MEGALITHIC, UNKNOWN] \<and>
   1 < card (set [MEGALITHIC, UNKNOWN]) \<and>
   newSite_chronology (Some [''Megalithic Age burial'', ''completely unrelated text''])
     = [MEGALITHIC] \<and>
   mappedChronology None = [] \<and>
   UNKNOWN \<in> set (newSite_chronology None) \<and>
   newSite_chronology None = [UNKNOWN]"
proof -
  let ?ec = "Some [''Megalithic Age burial'', ''completely unrelated text'']"
  have m: "mappedChronology ?ec = [MEGALITHIC, UNKNOWN]"
    by code_simp
  have s: "set (newSite_chronology ?ec) = {MEGALITHIC}"
    using newSite_chronology_invariant [of ?ec] unfolding m by auto
  have "distinct (newSite_chronology ?ec)"
    using newSite_chronology_invariant [of ?ec] by blast
  then have "newSite_chronology ?ec = [MEGALITHIC]"
    using s by (rule distinct_set_singleton)
  moreover have n: "mappedChronology None = []"
    by (simp add: mappedChronology_def)
  moreover have "newSite_chronology None = [UNKNOWN]"
    using newSite_chronology_invariant [of None] n by blast
  ultimately show ?thesis
    using m by simp
qed


section \<open>Identifier derivation\<close>

lemma distinct_digits: "distinct ''0123456789abcdefghijklmnopqrstuvwxyz''"
  by simp

lemma takeWhile_neq_nth:
  "distinct xs \<Longrightarrow> i < length xs \<Longrightarrow> length (takeWhile (\<lambda>y. y \<noteq> xs ! i) xs) = i"
proof (induction xs arbitrary: i)
  case Nil
  then show ?case by simp
next
  case (Cons x xs)
  then show ?case by (cases i) auto
qed

lemma digit_value_digit_char: "d < 36 \<Longrightarrow> digit_value (digit_char d) = d"
  unfolding digit_value_def digit_char_def
  by (rule takeWhile_neq_nth [OF distinct_digits]) simp

lemma digit_char_mem: "d < 36 \<Longrightarrow> digit_char d \<in> set ''0123456789abcdefghijklmnopqrstuvwxyz''"
  unfolding digit_char_def by (rule nth_mem) simp



lemma ToInt32_range: "- (2 ^ 31) \<le> ToInt32 v \<and> ToInt32 v < 2 ^ 31"
  unfolding ToInt32_def using sint_ge [of "word_of_int v :: 32 word"] sint_lt [of "word_of_int v :: 32 word"]
  by simp

lemma hash_loop_range:
  "- (2 ^ 31) \<le> h \<and> h < 2 ^ 31 \<Longrightarrow> - (2 ^ 31) \<le> hash_loop h s \<and> hash_loop h s < 2 ^ 31"
proof (induction s arbitrary: h)
  case Nil
  then show ?case by simp
next
  case (Cons c s)
  show ?case
    unfolding hash_loop.simps by (rule Cons.IH) (rule ToInt32_range)
qed

lemma hash_step: "ToInt32 ((shift_left h 5 - h) + c) = ToInt32 (31 * h + c)"
proof -
  have "(word_of_int (sint (push_bit 5 (word_of_int h :: 32 word)) - h + c) :: 32 word)
          = word_of_int (31 * h + c)"
    by (simp add: push_bit_eq_mult algebra_simps)
  then show ?thesis
    by (simp add: ToInt32_def shift_left_def)
qed


lemma Number_toString_36_digits:
  "set (Number_toString 36 n) \<subseteq> set ''0123456789abcdefghijklmnopqrstuvwxyz''"
proof (induction n rule: less_induct)
  case (less n)
  show ?case
  proof (cases "n < 36")
    case True
    then show ?thesis
      using digit_char_mem [of n] by (subst Number_toString.simps) simp
  next
    case False
    then have "n div 36 < n" by simp
    then have "set (Number_toString 36 (n div 36)) \<subseteq> set ''0123456789abcdefghijklmnopqrstuvwxyz''"
      by (rule less.IH)
    moreover have "digit_char (n mod 36) \<in> set ''0123456789abcdefghijklmnopqrstuvwxyz''"
      by (rule digit_char_mem) simp
    ultimately show ?thesis
      using False by (subst Number_toString.simps) simp
  qed
qed

lemma Number_toString_36_nonempty: "Number_toString 36 n \<noteq> []"
  by (subst Number_toString.simps) simp

lemma parse_Number_toString_36: "parse_digits 36 (Number_toString 36 n) = n"
proof (induction n rule: less_induct)
  case (less n)
  show ?case
  proof (cases "n < 36")
    case True
    then show ?thesis
      by (subst Number_toString.simps) (simp add: parse_digits_def digit_value_digit_char)
  next
    case False
    then have "n div 36 < n" by simp
    then have "parse_digits 36 (Number_toString 36 (n div 36)) = n div 36"
      by (rule less.IH)
    then show ?thesis
      using False
      by (subst Number_toString.simps) (simp add: parse_digits_def digit_value_digit_char)
  qed
qed



lemma replace_runs_chars: "c \<in> set (replace_runs s) \<Longrightarrow> is_a_z_0_9 c \<or> c = CHR ''-''"
  by (induction s rule: replace_runs.induct) (auto split: if_splits)




lemma digits_alnum: "c \<in> set ''0123456789abcdefghijklmnopqrstuvwxyz'' \<Longrightarrow> is_a_z_0_9 c"
  by (auto simp: is_a_z_0_9_def)

lemma hash_loop_snoc:
  "hash_loop h (s @ [c]) = ToInt32 (31 * hash_loop h s + int (of_char c))"
  by (induction s arbitrary: h) (simp_all add: hash_step)

lemma normalized_chars: "c \<in> set (normalized s) \<Longrightarrow> is_a_z_0_9 c \<or> c = CHR ''-''"
  unfolding normalized_def by (rule replace_runs_chars)

lemma stringToHash_chars: "c \<in> set (stringToHash s) \<Longrightarrow> is_a_z_0_9 c"
  unfolding stringToHash_def using Number_toString_36_digits digits_alnum by blast

text \<open>
  C8.  The identifier is a function of the normalized name, the normalized district and
  the timestamp: equal inputs give equal identifiers.  It is the normalized name, a
  hyphen, the normalized district, a hyphen and the hash of these three inputs, and it
  consists of the characters \<open>a\<close>--\<open>z\<close>, \<open>0\<close>--\<open>9\<close> and \<open>-\<close> only.  The hash
  accumulates \<open>31 * hash + code\<close> over the characters in 32-bit signed arithmetic and
  is printed as the base-36 digits of its absolute value, without a sign.
\<close>

theorem siteId_deterministic:
  "(normalized na = normalized nb \<and> normalized da = normalized db \<and> ta = tb
      \<longrightarrow> siteId na da ta = siteId nb db tb) \<and>
   siteId siteName siteDistrict now =
     normalized siteName @ ''-'' @ normalized siteDistrict @ ''-'' @
     stringToHash (normalized siteName @ ''-'' @ normalized siteDistrict @ ''-''
                     @ Number_toString 10 now) \<and>
   (\<forall>c \<in> set (siteId siteName siteDistrict now). is_a_z_0_9 c \<or> c = CHR ''-'') \<and>
   hash_loop 0 [] = 0 \<and>
   hash_loop 0 (str @ [c]) = ToInt32 (31 * hash_loop 0 str + int (of_char c)) \<and>
   - (2 ^ 31) \<le> hash_loop 0 str \<and> hash_loop 0 str < 2 ^ 31 \<and>
   stringToHash str \<noteq> [] \<and>
   set (stringToHash str) \<subseteq> set ''0123456789abcdefghijklmnopqrstuvwxyz'' \<and>
   parse_digits 36 (stringToHash str) = nat \<bar>hash_loop 0 str\<bar>"
proof (intro conjI impI)
  show "siteId na da ta = siteId nb db tb"
    if "normalized na = normalized nb \<and> normalized da = normalized db \<and> ta = tb"
    using that by (simp add: siteId_def)
  show "siteId siteName siteDistrict now =
     normalized siteName @ ''-'' @ normalized siteDistrict @ ''-'' @
     stringToHash (normalized siteName @ ''-'' @ normalized siteDistrict @ ''-''
                     @ Number_toString 10 now)"
    by (simp add: siteId_def compose_id_def)
  show "\<forall>c \<in> set (siteId siteName siteDistrict now). is_a_z_0_9 c \<or> c = CHR ''-''"
    using normalized_chars stringToHash_chars
    by (auto simp: siteId_def compose_id_def)
  show "hash_loop 0 [] = 0"
    by simp
  show "hash_loop 0 (str @ [c]) = ToInt32 (31 * hash_loop 0 str + int (of_char c))"
    by (rule hash_loop_snoc)
  show "- (2 ^ 31) \<le> hash_loop 0 str" and "hash_loop 0 str < 2 ^ 31"
    using hash_loop_range [of 0 str] by simp_all
  show "stringToHash str \<noteq> []"
    by (simp add: stringToHash_def Number_toString_36_nonempty)
  show "set (stringToHash str) \<subseteq> set ''0123456789abcdefghijklmnopqrstuvwxyz''"
    unfolding stringToHash_def by (rule Number_toString_36_digits)
  show "parse_digits 36 (stringToHash str) = nat \<bar>hash_loop 0 str\<bar>"
    unfolding stringToHash_def by (rule parse_Number_toString_36)
qed

theorem siteId_deterministic_witness:
  "normalized ''Keezhadi'' = normalized ''  KEEZHADI '' \<and>
   normalized ''Sivaganga'' = normalized ''sivaganga'' \<and>
   siteId ''Keezhadi'' ''Sivaganga'' 1700000000000
     = siteId ''  KEEZHADI '' ''sivaganga'' 1700000000000 \<and>
   siteId ''Keezhadi'' ''Sivaganga'' 1700000000000 = ''keezhadi-sivaganga-44973q''"
proof -
  have n: "normalized ''Keezhadi'' = ''keezhadi''" "normalized ''  KEEZHADI '' = ''keezhadi''"
    "normalized ''Sivaganga'' = ''sivaganga''" "normalized ''sivaganga'' = ''sivaganga''"
    by code_simp+
  have t: "Number_toString 10 1700000000000 = ''1700000000000''"
    by (simp add: Number_toString.simps digit_char_def)
  have h: "hash_loop 0 ''keezhadi-sivaganga-1700000000000'' = - 249012278"
    by (simp add: ToInt32_def shift_left_def)
  have s: "stringToHash ''keezhadi-sivaganga-1700000000000'' = ''44973q''"
    unfolding stringToHash_def h by (simp add: Number_toString.simps digit_char_def)
  note inst = siteId_deterministic [where na = "''Keezhadi''" and nb = "''  KEEZHADI ''"
      and da = "''Sivaganga''" and db = "''sivaganga''"
      and ta = 1700000000000 and tb = 1700000000000
      and siteName = "''Keezhadi''" and siteDistrict = "''Sivaganga''" and now = 1700000000000
      and str = "''abc''" and c = "CHR ''d''"]
  have "siteId ''Keezhadi'' ''Sivaganga'' 1700000000000 =
     normalized ''Keezhadi'' @ ''-'' @ normalized ''Sivaganga'' @ ''-'' @
     stringToHash (normalized ''Keezhadi'' @ ''-'' @ normalized ''Sivaganga'' @ ''-''
                     @ Number_toString 10 1700000000000)"
    using inst by blast
  then have i: "siteId ''Keezhadi'' ''Sivaganga'' 1700000000000 = ''keezhadi-sivaganga-44973q''"
    by (simp add: n t s)
  have e: "siteId ''Keezhadi'' ''Sivaganga'' 1700000000000
     = siteId ''  KEEZHADI '' ''sivaganga'' 1700000000000"
  proof -
    have "normalized ''Keezhadi'' = normalized ''  KEEZHADI '' \<and>
          normalized ''Sivaganga'' = normalized ''sivaganga'' \<and>
          (1700000000000 :: nat) = 1700000000000"
      by (simp add: n)
    with inst [THEN conjunct1] show ?thesis
      by (rule mp)
  qed
  show ?thesis
  proof (intro conjI)
    show "normalized ''Keezhadi'' = normalized ''  KEEZHADI ''"
      by (simp add: n)
    show "normalized ''Sivaganga'' = normalized ''sivaganga''"
      by (simp add: n)
  qed (rule e i)+
qed


section \<open>Drag start\<close>

lemma example_node_sel:
  "node_x example_node = 400" "node_y example_node = 300" "fx example_node = None" "id' example_node = ''keezhadi''"
  by (simp_all add: example_node_def Site.defs GraphNode.defs keezhadi_def)

text \<open>
  C9, as stated, fails: a drag start on a cooled simulation leaves \<open>alpha\<close> at its
  cooled value instead of the starting value 1.
\<close>

theorem dragstarted_alpha_counterexample:
  "alpha (fst (dragstarted example_drag cooled_simulation)) \<noteq> initial_alpha"
  by (simp add: dragstarted_def example_drag_def cooled_simulation_def initial_alpha_def
      set_alphaTarget_def restart_def Let_def)

text \<open>
  C9, amended.  A drag start pins the dragged node at its current position (\<open>fx\<close> and
  \<open>fy\<close> become the node's \<open>x\<close> and \<open>y\<close>, which stay as they are) and never writes
  \<open>alpha\<close>.  When no other drag gesture is active it sets the simulation's alpha target
  to 0.3 and restarts its timer; otherwise it leaves the simulation as it is.
\<close>

theorem dragstarted_effect:
  "fx (snd (dragstarted event sim)) = Some (node_x (subject event)) \<and>
   fy (snd (dragstarted event sim)) = Some (node_y (subject event)) \<and>
   node_x (snd (dragstarted event sim)) = node_x (subject event) \<and>
   node_y (snd (dragstarted event sim)) = node_y (subject event) \<and>
   alpha (fst (dragstarted event sim)) = alpha sim \<and>
   (active event = 0 \<longrightarrow>
      alphaTarget (fst (dragstarted event sim)) = 0.3 \<and> running (fst (dragstarted event sim))) \<and>
   (active event \<noteq> 0 \<longrightarrow> fst (dragstarted event sim) = sim)"
  by (simp add: dragstarted_def set_alphaTarget_def restart_def Let_def)

theorem dragstarted_effect_witness:
  "active example_drag = 0 \<and>
   fx (snd (dragstarted example_drag cooled_simulation)) = Some 400 \<and>
   fy (snd (dragstarted example_drag cooled_simulation)) = Some 300 \<and>
   fst (dragstarted example_drag cooled_simulation)
     = \<lparr> alpha = 1 / 1000, alphaTarget = 0.3, running = True \<rparr> \<and>
   active (example_drag\<lparr> active := 1 \<rparr>) \<noteq> 0 \<and>
   fst (dragstarted (example_drag\<lparr> active := 1 \<rparr>) cooled_simulation) = cooled_simulation"
proof -
  have a: "active example_drag = 0" and s: "subject example_drag = example_node"
    by (simp_all add: example_drag_def)
  note inst = dragstarted_effect [of example_drag cooled_simulation]
  have "alpha (fst (dragstarted example_drag cooled_simulation)) = 1 / 1000"
    and "alphaTarget (fst (dragstarted example_drag cooled_simulation)) = 0.3"
    and "running (fst (dragstarted example_drag cooled_simulation))"
    using inst a by (simp_all add: cooled_simulation_def)
  then have f: "fst (dragstarted example_drag cooled_simulation)
     = \<lparr> alpha = 1 / 1000, alphaTarget = 0.3, running = True \<rparr>"
    by (cases "fst (dragstarted example_drag cooled_simulation)") simp
  have p: "fx (snd (dragstarted example_drag cooled_simulation)) = Some 400"
    "fy (snd (dragstarted example_drag cooled_simulation)) = Some 300"
    using inst by (simp_all add: s example_node_sel)
  have b: "active (example_drag\<lparr> active := 1 \<rparr>) \<noteq> 0"
    by simp
  have "fst (dragstarted (example_drag\<lparr> active := 1 \<rparr>) cooled_simulation) = cooled_simulation"
    using dragstarted_effect [of "example_drag\<lparr> active := 1 \<rparr>" cooled_simulation] b by blast
  with a f p b show ?thesis
    by blast
qed

end
